theory Spec2Isabelle
  imports Complex_Main "HOL-Library.Multiset"
begin

section \<open>Strings\<close>

text \<open>
  A Python \<open>str\<close> is a sequence of Unicode code points, so a string is a list of
  code points (natural numbers), not a list of bytes: the labels and the unit suffix of
  the reports are Japanese text.
\<close>

type_synonym str = "nat list"

definition in_ranges :: "(nat \<times> nat) list \<Rightarrow> nat \<Rightarrow> bool" where
  "in_ranges rs c = list_ex (\<lambda>(lo, n). lo \<le> c \<and> c < lo + n) rs"

text \<open>
  The class \<open>\d\<close> of a \<open>str\<close> pattern is every Unicode decimal digit (category Nd), not
  only 0-9: each entry is the code point of a zero digit and the length of the run that
  starts there (Unicode 14.0, the table of CPython 3.11).
\<close>

definition decimal_ranges :: "(nat \<times> nat) list" where
  "decimal_ranges =
    [(0x30, 10), (0x660, 10), (0x6F0, 10), (0x7C0, 10), (0x966, 10), (0x9E6, 10),
     (0xA66, 10), (0xAE6, 10), (0xB66, 10), (0xBE6, 10), (0xC66, 10), (0xCE6, 10),
     (0xD66, 10), (0xDE6, 10), (0xE50, 10), (0xED0, 10), (0xF20, 10), (0x1040, 10),
     (0x1090, 10), (0x17E0, 10), (0x1810, 10), (0x1946, 10), (0x19D0, 10), (0x1A80, 10),
     (0x1A90, 10), (0x1B50, 10), (0x1BB0, 10), (0x1C40, 10), (0x1C50, 10), (0xA620, 10),
     (0xA8D0, 10), (0xA900, 10), (0xA9D0, 10), (0xA9F0, 10), (0xAA50, 10), (0xABF0, 10),
     (0xFF10, 10), (0x104A0, 10), (0x10D30, 10), (0x11066, 10), (0x110F0, 10),
     (0x11136, 10), (0x111D0, 10), (0x112F0, 10), (0x11450, 10), (0x114D0, 10),
     (0x11650, 10), (0x116C0, 10), (0x11730, 10), (0x118E0, 10), (0x11950, 10),
     (0x11C50, 10), (0x11D50, 10), (0x11DA0, 10), (0x16A60, 10), (0x16AC0, 10),
     (0x16B50, 10), (0x1D7CE, 50), (0x1E140, 10), (0x1E2F0, 10), (0x1E950, 10),
     (0x1FBF0, 10)]"

definition isdecimal :: "nat \<Rightarrow> bool" where
  "isdecimal c = in_ranges decimal_ranges c"

text \<open>The characters that \<open>str.strip()\<close> removes: those for which \<open>str.isspace\<close> holds.\<close>

definition space_ranges :: "(nat \<times> nat) list" where
  "space_ranges =
    [(0x9, 5), (0x1C, 5), (0x85, 1), (0xA0, 1), (0x1680, 1), (0x2000, 11), (0x2028, 2),
     (0x202F, 1), (0x205F, 1), (0x3000, 1)]"

definition isspace :: "nat \<Rightarrow> bool" where
  "isspace c = in_ranges space_ranges c"

definition strip :: "str \<Rightarrow> str" where
  "strip s = rev (dropWhile isspace (rev (dropWhile isspace s)))"

fun startswith :: "str \<Rightarrow> str \<Rightarrow> bool" where
  "startswith s [] = True"
| "startswith [] (p # ps) = False"
| "startswith (c # s) (p # ps) = (c = p \<and> startswith s ps)"

text \<open>\<open>contains sub s\<close> is Python's \<open>sub in s\<close>: \<open>sub\<close> occurs in \<open>s\<close> at some position.\<close>

fun contains :: "str \<Rightarrow> str \<Rightarrow> bool" where
  "contains sub [] = (sub = [])"
| "contains sub (c # s) = (startswith (c # s) sub \<or> contains sub s)"

text \<open>\<open>join sep xs\<close> is \<open>sep.join(xs)\<close>.\<close>

fun join :: "str \<Rightarrow> str list \<Rightarrow> str" where
  "join sep [] = []"
| "join sep [x] = x"
| "join sep (x # y # ys) = x @ sep @ join sep (y # ys)"

section \<open>The numeric pattern\<close>

text \<open>
  The pattern of \<open>extract_ev_ebitda_median\<close> is
  \<^verbatim>\<open>(\d{1,3}(?:\.\d+)?)\<close> followed by the unit suffix U+500D ("times").
  The matcher below is the backtracking matcher of \<open>re\<close> specialised to the operators
  the pattern uses. Each operator takes the continuation \<open>k\<close> that matches the rest of
  the pattern and returns the matched text (\<open>match.group(0)\<close>) or \<open>None\<close>. Repetitions
  are greedy: one more character is tried first, and the shorter repetition is tried
  only when the rest of the pattern failed after the longer one.
\<close>

definition unit_suffix :: nat where
  "unit_suffix = 0x500D"

definition full_stop :: nat where
  "full_stop = 0x2E"

text \<open>End of the pattern: the match ends here.\<close>

definition accept :: "str \<Rightarrow> str option" where
  "accept s = Some []"

text \<open>A literal character.\<close>

definition lit_then :: "nat \<Rightarrow> (str \<Rightarrow> str option) \<Rightarrow> str \<Rightarrow> str option" where
  "lit_then a k s =
     (case s of
        [] \<Rightarrow> None
      | c # r \<Rightarrow> if c = a then map_option (Cons c) (k r) else None)"

text \<open>\<open>x*\<close> for a character class \<open>P\<close>, greedy.\<close>

fun star_then :: "(nat \<Rightarrow> bool) \<Rightarrow> (str \<Rightarrow> str option) \<Rightarrow> str \<Rightarrow> str option" where
  "star_then P k [] = k []"
| "star_then P k (c # s) =
     (if P c then
        (case star_then P k s of
           Some m \<Rightarrow> Some (c # m)
         | None \<Rightarrow> k (c # s))
      else k (c # s))"

text \<open>\<open>x+\<close>: one character of the class, then \<open>x*\<close>.\<close>

definition plus_then :: "(nat \<Rightarrow> bool) \<Rightarrow> (str \<Rightarrow> str option) \<Rightarrow> str \<Rightarrow> str option" where
  "plus_then P k s =
     (case s of
        [] \<Rightarrow> None
      | c # r \<Rightarrow> if P c then map_option (Cons c) (star_then P k r) else None)"

text \<open>\<open>x{lo,hi}\<close> for a character class \<open>P\<close>, greedy.\<close>

fun repeat_then ::
  "(nat \<Rightarrow> bool) \<Rightarrow> nat \<Rightarrow> nat \<Rightarrow> (str \<Rightarrow> str option) \<Rightarrow> str \<Rightarrow> str option" where
  "repeat_then P lo hi k [] = (if lo = 0 then k [] else None)"
| "repeat_then P lo hi k (c # s) =
     (if 0 < hi \<and> P c then
        (case repeat_then P (lo - 1) (hi - 1) k s of
           Some m \<Rightarrow> Some (c # m)
         | None \<Rightarrow> if lo = 0 then k (c # s) else None)
      else if lo = 0 then k (c # s) else None)"

text \<open>\<open>(?:g)?\<close>: the group is tried first, and skipped when the match fails with it.\<close>

definition opt_then ::
  "((str \<Rightarrow> str option) \<Rightarrow> str \<Rightarrow> str option) \<Rightarrow> (str \<Rightarrow> str option) \<Rightarrow> str \<Rightarrow> str option" where
  "opt_then g k s = (case g k s of Some m \<Rightarrow> Some m | None \<Rightarrow> k s)"

text \<open>The fraction \<^verbatim>\<open>\.\d+\<close>.\<close>

definition fraction_then :: "(str \<Rightarrow> str option) \<Rightarrow> str \<Rightarrow> str option" where
  "fraction_then k = lit_then full_stop (plus_then isdecimal k)"

text \<open>The whole pattern, matched at the start of \<open>s\<close>.\<close>

definition pattern_match :: "str \<Rightarrow> str option" where
  "pattern_match s =
     repeat_then isdecimal 1 3 (opt_then fraction_then (lit_then unit_suffix accept)) s"

text \<open>
  \<open>pattern.search(s)\<close>: the match at the leftmost position where the pattern matches;
  the result is \<open>match.group(0)\<close>.
\<close>

fun pattern_search :: "str \<Rightarrow> str option" where
  "pattern_search [] = pattern_match []"
| "pattern_search (c # s) =
     (case pattern_match (c # s) of
        Some m \<Rightarrow> Some m
      | None \<Rightarrow> pattern_search s)"

section \<open>Documents and exceptions\<close>

text \<open>
  What the pipeline reads of a loaded report: the text of every paragraph and, for
  every table, its rows, each the text of its cells, all in document order and as the
  loader gives them (not yet stripped).
\<close>

record document =
  paragraphs :: "str list"
  tables :: "str list list list"

text \<open>
  The exceptions the request handler tells apart: its own \<open>HTTPException\<close> (status and
  detail), \<open>FileNotFoundError\<close>, the summarization client's \<open>OpenAIError\<close>, and every
  other \<open>Exception\<close>, of which \<open>IndexError\<close> is the one the extractor itself can raise.
\<close>

datatype exc =
    HTTPException nat str
  | FileNotFoundError str
  | OpenAIError str
  | IndexError
  | OtherError str

section \<open>The metric extractor\<close>

definition median_label :: str where
  "median_label = [0x4E2D, 0x592E, 0x5024]"

text \<open>
  The loop over the rows of one table. \<open>Inr (Some m)\<close> is \<open>return m\<close>, \<open>Inr None\<close> is
  the loop running to its end, and \<open>Inl IndexError\<close> is \<open>cells[0]\<close> on a row without
  cells.
\<close>

fun scan_rows :: "str list list \<Rightarrow> exc + str option" where
  "scan_rows [] = Inr None"
| "scan_rows (row # rest) =
     (let cells = map strip row in
      case cells of
        [] \<Rightarrow> Inl IndexError
      | first # _ \<Rightarrow>
          if contains median_label first then
            (case pattern_search (last cells) of
               Some m \<Rightarrow> Inr (Some m)
             | None \<Rightarrow> scan_rows rest)
          else scan_rows rest)"

text \<open>The loop over the tables.\<close>

fun scan_tables :: "str list list list \<Rightarrow> exc + str option" where
  "scan_tables [] = Inr None"
| "scan_tables (t # ts) =
     (case scan_rows t of
        Inl e \<Rightarrow> Inl e
      | Inr (Some m) \<Rightarrow> Inr (Some m)
      | Inr None \<Rightarrow> scan_tables ts)"

definition extract_ev_ebitda_median :: "document \<Rightarrow> exc + str option" where
  "extract_ev_ebitda_median doc = scan_tables (tables doc)"

text \<open>
  Auxiliary predicates on one row, used to state what the scan does: a row the scan
  passes over (it has a cell, and either its first cell carries no median label or its
  last cell holds no match), and a row at which the scan returns \<open>m\<close>.
\<close>

definition skipped_row :: "str list \<Rightarrow> bool" where
  "skipped_row row \<longleftrightarrow>
     row \<noteq> [] \<and>
     (\<not> contains median_label (strip (hd row)) \<or> pattern_search (strip (last row)) = None)"

definition qualifying_row :: "str list \<Rightarrow> str \<Rightarrow> bool" where
  "qualifying_row row m \<longleftrightarrow>
     row \<noteq> [] \<and>
     contains median_label (strip (hd row)) \<and> pattern_search (strip (last row)) = Some m"

section \<open>The relevance ranker\<close>

type_synonym sorter = "real list \<Rightarrow> nat list"

text \<open>
  \<open>numpy.argsort\<close> with the default kind gives the indices that sort the array in
  ascending order. The default kind is not stable: the order it leaves among equal
  values is not specified and differs between builds of numpy. The sort is therefore a
  parameter \<open>srt\<close> of the ranker, and all that is known of its result is
  \<open>sorts_indices\<close>: the indices of the array, each once, in ascending order of their
  values.
\<close>

definition sorts_indices :: "real list \<Rightarrow> nat list \<Rightarrow> bool" where
  "sorts_indices a idxs \<longleftrightarrow>
     mset idxs = mset [0..<length a] \<and> sorted (map (\<lambda>i. a ! i) idxs)"

text \<open>The slice \<open>a[-3:]\<close>: the last three elements, or all of them when there are fewer.\<close>

definition last3 :: "'a list \<Rightarrow> 'a list" where
  "last3 xs = drop (length xs - 3) xs"

text \<open>\<open>cosine_similarities.argsort()[-3:][::-1]\<close>.\<close>

definition top_indices :: "sorter \<Rightarrow> real list \<Rightarrow> nat list" where
  "top_indices srt sims = rev (last3 (srt sims))"

text \<open>\<open>xs[i]\<close> for an index that is not negative.\<close>

definition getitem :: "'a list \<Rightarrow> nat \<Rightarrow> exc + 'a" where
  "getitem xs i = (if i < length xs then Inr (xs ! i) else Inl IndexError)"

text \<open>The comprehension \<open>[texts[i] for i in top_indices]\<close>.\<close>

fun gather :: "'a list \<Rightarrow> nat list \<Rightarrow> exc + 'a list" where
  "gather xs [] = Inr []"
| "gather xs (i # is) =
     (case getitem xs i of
        Inl e \<Rightarrow> Inl e
      | Inr x \<Rightarrow>
          (case gather xs is of
             Inl e \<Rightarrow> Inl e
           | Inr r \<Rightarrow> Inr (x # r)))"

text \<open>
  The TF-IDF vectors and their cosine similarities are computed by scikit-learn in
  floating point. They enter the model as the parameter \<open>similarity\<close>: for a query and the
  paragraphs it gives the flattened array \<open>cosine_similarities\<close>, one score for each
  paragraph, or the exception the library raised.
\<close>

type_synonym scorer = "str \<Rightarrow> str list \<Rightarrow> exc + real list"

definition search_relevant_text ::
  "sorter \<Rightarrow> scorer \<Rightarrow> str \<Rightarrow> str list \<Rightarrow> exc + str list" where
  "search_relevant_text srt similarity query texts =
     (case similarity query texts of
        Inl e \<Rightarrow> Inl e
      | Inr cosine_similarities \<Rightarrow> gather texts (top_indices srt cosine_similarities))"

text \<open>
  The order of the ranking in the words of the specification: descending score, and
  among equal scores the paragraph that is earlier in the input first.
\<close>

definition spec_ranking_order :: "real list \<Rightarrow> nat list \<Rightarrow> bool" where
  "spec_ranking_order sims idxs \<longleftrightarrow>
     sorted_wrt (\<lambda>i j. sims ! j < sims ! i \<or> (sims ! i = sims ! j \<and> i < j)) idxs"

section \<open>The request handler\<close>

text \<open>The message strings of the handler, as code points.\<close>

definition detail_missing_parameter :: str where
  "detail_missing_parameter =
    [0x30EC, 0x30DD, 0x30FC, 0x30C8, 0x304C, 0x8868, 0x793A, 0x3055, 0x308C, 0x3066,
     0x3044, 0x307E, 0x305B, 0x3093, 0x3002, 0x696D, 0x754C, 0x540D, 0x3092, 0x6307,
     0x5B9A, 0x3057, 0x3066, 0x304F, 0x3060, 0x3055, 0x3044, 0x3002]"

definition detail_file_not_found :: str where
  "detail_file_not_found =
    [0x6307, 0x5B9A, 0x3055, 0x308C, 0x305F, 0x30D5, 0x30A1, 0x30A4, 0x30EB, 0x304C,
     0x898B, 0x3064, 0x304B, 0x308A, 0x307E, 0x305B, 0x3093, 0x3002]"

definition detail_metric_not_found :: str where
  "detail_metric_not_found =
    [0x4F01, 0x696D, 0x4FA1, 0x5024, 0x2F, 0x45, 0x42, 0x49, 0x54, 0x44, 0x41, 0x500D,
     0x7387, 0x306E, 0x4E2D, 0x592E, 0x5024, 0x304C, 0x898B, 0x3064, 0x304B, 0x308A,
     0x307E, 0x305B, 0x3093, 0x3002]"

definition openai_error_prefix :: str where
  "openai_error_prefix =
    [0x4F, 0x70, 0x65, 0x6E, 0x41, 0x49, 0x20, 0x41, 0x50, 0x49, 0x30A8, 0x30E9, 0x30FC,
     0x3A, 0x20]"

definition path_prefix :: str where
  "path_prefix = [0x61, 0x70, 0x70, 0x2F]"

definition path_suffix :: str where
  "path_suffix = [0x2E, 0x64, 0x6F, 0x63, 0x78]"

definition prompt_middle :: str where
  "prompt_middle =
    [0xA, 0xA, 0x4E0A, 0x8A18, 0x306E, 0x5185, 0x5BB9, 0x3092, 0x8981, 0x7D04, 0x3057,
     0x3001, 0x4EE5, 0x4E0B, 0x306E, 0x8CEA, 0x554F, 0x306B, 0x56DE, 0x7B54, 0x3057,
     0x3066, 0x304F, 0x3060, 0x3055, 0x3044, 0xFF1A]"

definition prompt_tail :: str where
  "prompt_tail =
    [0x20, 0x30C8, 0x30FC, 0x30AF, 0x30F3, 0x6570, 0x306F, 0x35, 0x30, 0x4EE5, 0x5185,
     0x3067, 0x304A, 0x9858, 0x3044, 0x3057, 0x307E, 0x3059, 0x3002]"

datatype topic =
    current_situation
  | future_outlook
  | investment_advantages
  | investment_disadvantages
  | value_up_hypothesis

text \<open>The dictionary \<open>queries\<close>, in its insertion order, which is the order of the loop.\<close>

definition queries :: "(topic \<times> str) list" where
  "queries =
    [(current_situation,
      [0x696D, 0x754C, 0x306E, 0x73FE, 0x72B6, 0x3092, 0x8AAC, 0x660E, 0x3057, 0x3066,
       0x304F, 0x3060, 0x3055, 0x3044, 0x3002]),
     (future_outlook,
      [0x696D, 0x754C, 0x306E, 0x5C06, 0x6765, 0x306E, 0x898B, 0x7ACB, 0x3066, 0x3092,
       0x8AAC, 0x660E, 0x3057, 0x3066, 0x304F, 0x3060, 0x3055, 0x3044, 0x3002]),
     (investment_advantages,
      [0x696D, 0x754C, 0x3078, 0x306E, 0x6295, 0x8CC7, 0x30E1, 0x30EA, 0x30C3, 0x30C8,
       0x3092, 0x6559, 0x3048, 0x3066, 0x304F, 0x3060, 0x3055, 0x3044, 0x3002]),
     (investment_disadvantages,
      [0x696D, 0x754C, 0x3078, 0x306E, 0x6295, 0x8CC7, 0x30C7, 0x30E1, 0x30EA, 0x30C3,
       0x30C8, 0x3092, 0x6559, 0x3048, 0x3066, 0x304F, 0x3060, 0x3055, 0x3044, 0x3002]),
     (value_up_hypothesis,
      [0x696D, 0x754C, 0x306B, 0x304A, 0x3051, 0x308B, 0x44, 0x58, 0x306B, 0x3088, 0x308B,
       0x30D0, 0x30EA, 0x30E5, 0x30FC, 0x30A2, 0x30C3, 0x30D7, 0x4EEE, 0x8AAC, 0x3092,
       0x8AAC, 0x660E, 0x3057, 0x3066, 0x304F, 0x3060, 0x3055, 0x3044, 0x3002])]"

text \<open>
  The collaborators of one request: the file system, the document loader, the
  similarity scores of scikit-learn, numpy's \<open>argsort\<close>,
  the chat completion (the content of the first choice for a prompt, or the exception
  raised on the way to it), and \<open>str(e)\<close> of an exception.
\<close>

record env =
  path_exists :: "str \<Rightarrow> bool"
  load_document :: "str \<Rightarrow> exc + document"
  similarity :: scorer
  argsort :: sorter
  chat_completion :: "str \<Rightarrow> exc + str"
  exc_str :: "exc \<Rightarrow> str"

text \<open>The calls the handler makes to the world outside, in the order it makes them.\<close>

datatype event =
    PathExists str
  | LoadDocument str
  | ChatCompletion str

record result_record =
  r_current_situation :: str
  r_future_outlook :: str
  r_investment_advantages :: str
  r_investment_disadvantages :: str
  r_value_up_hypothesis :: str
  r_ev_ebitda_median :: str

text \<open>What the endpoint answers: the JSON record, or an \<open>HTTPException\<close> with status and detail.\<close>

datatype response =
    Returned result_record
  | Failed nat str

text \<open>
  The loop over \<open>queries.items()\<close>. An exception leaves the loop with the trace of the
  calls made so far.
\<close>

fun collect_summaries ::
  "env \<Rightarrow> str list \<Rightarrow> (topic \<times> str) list \<Rightarrow> (topic \<Rightarrow> str) \<Rightarrow> event list
     \<Rightarrow> event list \<times> (exc + (topic \<Rightarrow> str))" where
  "collect_summaries e ps [] summaries tr = (tr, Inr summaries)"
| "collect_summaries e ps ((key, query) # rest) summaries tr =
     (case search_relevant_text (argsort e) (similarity e) query ps of
        Inl x \<Rightarrow> (tr, Inl x)
      | Inr relevant_paragraphs \<Rightarrow>
          (let relevant_text = join [0xA] relevant_paragraphs;
               prompt = relevant_text @ prompt_middle @ query @ prompt_tail;
               tr' = tr @ [ChatCompletion prompt]
           in case chat_completion e prompt of
                Inl x \<Rightarrow> (tr', Inl x)
              | Inr content \<Rightarrow>
                  collect_summaries e ps rest (summaries(key := strip content)) tr'))"

text \<open>The body of the \<open>try\<close> block.\<close>

definition try_body :: "env \<Rightarrow> str \<Rightarrow> event list \<times> (exc + result_record)" where
  "try_body e industry =
     (let file_path = path_prefix @ industry @ path_suffix;
          tr1 = [PathExists file_path]
      in if \<not> path_exists e file_path then
           (tr1, Inl (HTTPException 404 detail_file_not_found))
         else
           (let tr2 = tr1 @ [LoadDocument file_path]
            in case load_document e file_path of
                 Inl x \<Rightarrow> (tr2, Inl x)
               | Inr doc \<Rightarrow>
                   (let ps = filter (\<lambda>p. strip p \<noteq> []) (paragraphs doc)
                    in case collect_summaries e ps queries (\<lambda>key. []) tr2 of
                         (tr3, Inl x) \<Rightarrow> (tr3, Inl x)
                       | (tr3, Inr summaries) \<Rightarrow>
                           (case extract_ev_ebitda_median doc of
                              Inl x \<Rightarrow> (tr3, Inl x)
                            | Inr None \<Rightarrow>
                                (tr3, Inl (HTTPException 404 detail_metric_not_found))
                            | Inr (Some ev_ebitda_median) \<Rightarrow>
                                (tr3, Inr \<lparr>r_current_situation = summaries current_situation,
                                          r_future_outlook = summaries future_outlook,
                                          r_investment_advantages =
                                            summaries investment_advantages,
                                          r_investment_disadvantages =
                                            summaries investment_disadvantages,
                                          r_value_up_hypothesis = summaries value_up_hypothesis,
                                          r_ev_ebitda_median = ev_ebitda_median\<rparr>)))))"

text \<open>
  The \<open>except\<close> clauses, in their order: \<open>FileNotFoundError\<close>, \<open>OpenAIError\<close>, and
  \<open>Exception\<close>, which is every other exception, an \<open>HTTPException\<close> raised inside the
  \<open>try\<close> block among them.
\<close>

definition handle_exception :: "env \<Rightarrow> exc \<Rightarrow> response" where
  "handle_exception e x =
     (case x of
        FileNotFoundError m \<Rightarrow> Failed 404 detail_file_not_found
      | OpenAIError m \<Rightarrow> Failed 500 (openai_error_prefix @ exc_str e x)
      | _ \<Rightarrow> Failed 500 (exc_str e x))"

text \<open>The endpoint: \<open>None\<close> is a request without the parameter \<open>industry\<close>.\<close>

definition summarize_preset_file :: "env \<Rightarrow> str option \<Rightarrow> event list \<times> response" where
  "summarize_preset_file e industry =
     (case industry of
        None \<Rightarrow> ([], Failed 400 detail_missing_parameter)
      | Some name \<Rightarrow>
          (case try_body e name of
             (tr, Inr r) \<Rightarrow> (tr, Returned r)
           | (tr, Inl x) \<Rightarrow> (tr, handle_exception e x)))"

section \<open>Example reports\<close>

text \<open>
  Three reports on which the properties below are run. The first has a table without a
  median row, then a table whose median row reads "7" and the unit suffix, then a table
  whose median row reads "9" and the unit suffix. The second has a median row whose last
  cell is a dash before the median row with a value. The third has a median row whose
  last cell is "1234" and the unit suffix.
\<close>

definition doc_two_medians :: document where
  "doc_two_medians =
     \<lparr>paragraphs = [],
      tables =
        [[[[0x41], [0x42]]],
         [[[0x58], [0x35, 0x500D]], [median_label, [0x37, 0x500D]]],
         [[median_label, [0x39, 0x500D]]]]\<rparr>"

definition doc_unmatched_median :: document where
  "doc_unmatched_median =
     \<lparr>paragraphs = [],
      tables =
        [[[[0x41], [0x42]], [median_label, [0x2D]]],
         [[[0x58], [0x35, 0x500D]], [median_label @ [0x20], [0x20, 0x39, 0x2E, 0x35, 0x500D]]]]\<rparr>"

definition doc_long_number :: document where
  "doc_long_number =
     \<lparr>paragraphs = [],
      tables = [[[[0x41], [0x42]], [median_label, [0x31, 0x32, 0x33, 0x34, 0x500D]]]]\<rparr>"

text \<open>
  A report whose median row has a decimal number with four digits after the full stop:
  "12.3456" and the unit suffix.
\<close>

definition doc_fraction_run :: document where
  "doc_fraction_run =
     \<lparr>paragraphs = [],
      tables =
        [[[[0x41], [0x42]],
          [median_label, [0x31, 0x32, 0x2E, 0x33, 0x34, 0x35, 0x36, 0x500D]]]]\<rparr>"

text \<open>A report whose median row reads "EV 1234" and the unit suffix.\<close>

definition doc_prefixed_number :: document where
  "doc_prefixed_number =
     \<lparr>paragraphs = [],
      tables =
        [[[median_label, [0x45, 0x56, 0x20, 0x31, 0x32, 0x33, 0x34, 0x500D]]]]\<rparr>"

text \<open>
  One sort that \<open>sorts_indices\<close> admits: an insertion sort of the indices, which leaves
  an array that is already in order as it is.
\<close>

definition insertion_argsort :: sorter where
  "insertion_argsort a = sort_key (\<lambda>i. a ! i) [0..<length a]"

text \<open>
  The scores of a query that shares no term with any paragraph: every cosine similarity
  is zero.
\<close>

definition zero_scorer :: scorer where
  "zero_scorer query texts = Inr (map (\<lambda>t. 0) texts)"

text \<open>
  The collaborators of an example deployment. One report exists, for the industry
  "retail": it has two paragraphs with text and one table, in which no row is labeled
  as the median. No report exists for "bank". The similarity scores are all zero, the
  sort is the insertion sort, every
  chat completion answers " ok ", and \<open>str(e)\<close> of an \<open>HTTPException\<close> is its status in
  decimal, a colon, a space and its detail, as Starlette prints it.
\<close>

fun decimal :: "nat \<Rightarrow> str" where
  "decimal n = (if n < 10 then [0x30 + n] else decimal (n div 10) @ [0x30 + n mod 10])"

definition example_exc_str :: "exc \<Rightarrow> str" where
  "example_exc_str x =
     (case x of
        HTTPException status detail \<Rightarrow> decimal status @ [0x3A, 0x20] @ detail
      | FileNotFoundError m \<Rightarrow> m
      | OpenAIError m \<Rightarrow> m
      | IndexError \<Rightarrow>
          [0x6C, 0x69, 0x73, 0x74, 0x20, 0x69, 0x6E, 0x64, 0x65, 0x78, 0x20, 0x6F, 0x75, 0x74,
           0x20, 0x6F, 0x66, 0x20, 0x72, 0x61, 0x6E, 0x67, 0x65]
      | OtherError m \<Rightarrow> m)"

definition example_doc :: document where
  "example_doc =
     \<lparr>paragraphs = [[0x61, 0x61], [0x20], [0x62, 0x62]],
      tables = [[[[0x41], [0x35, 0x500D]]]]\<rparr>"

definition retail :: str where
  "retail = [0x72, 0x65, 0x74, 0x61, 0x69, 0x6C]"

definition bank :: str where
  "bank = [0x62, 0x61, 0x6E, 0x6B]"

definition example_env :: env where
  "example_env =
     \<lparr>path_exists = (\<lambda>p. p = path_prefix @ retail @ path_suffix),
      load_document = (\<lambda>p. Inr example_doc),
      similarity = zero_scorer,
      argsort = insertion_argsort,
      chat_completion = (\<lambda>prompt. Inr [0x20, 0x6F, 0x6B, 0x20]),
      exc_str = example_exc_str\<rparr>"

text \<open>The report for "retail" with a median row added to its table: "12.3" and the unit suffix.\<close>

definition doc_with_median :: document where
  "doc_with_median =
     \<lparr>paragraphs = [[0x61, 0x61], [0x20], [0x62, 0x62]],
      tables = [[[[0x41], [0x35, 0x500D]], [median_label, [0x31, 0x32, 0x2E, 0x33, 0x500D]]]]\<rparr>"

section \<open>Evaluation of the string functions\<close>

lemmas string_eval =
  strip_def isspace_def isdecimal_def in_ranges_def space_ranges_def decimal_ranges_def
  median_label_def unit_suffix_def full_stop_def

lemmas pattern_eval =
  pattern_match_def opt_then_def fraction_then_def lit_then_def plus_then_def accept_def

lemma isdecimal_unit_suffix: "\<not> isdecimal unit_suffix"
  by (simp add: isdecimal_def in_ranges_def decimal_ranges_def unit_suffix_def)

lemma isdecimal_full_stop: "\<not> isdecimal full_stop"
  by (simp add: isdecimal_def in_ranges_def decimal_ranges_def full_stop_def)

lemma isdecimal_ascii: "48 \<le> c \<Longrightarrow> c < 58 \<Longrightarrow> isdecimal c"
  by (simp add: isdecimal_def in_ranges_def decimal_ranges_def)

section \<open>Properties of the metric extractor\<close>

text \<open>
  The two loops scan the rows of all tables as one sequence, in document order: the
  scan of a concatenation is the scan of its first part and, when that part neither
  returns nor raises, the scan of the rest.
\<close>

lemma scan_rows_append:
  "scan_rows (a @ b) =
     (case scan_rows a of
        Inl e \<Rightarrow> Inl e
      | Inr (Some m) \<Rightarrow> Inr (Some m)
      | Inr None \<Rightarrow> scan_rows b)"
  by (induction a) (auto simp: Let_def split: list.splits option.splits sum.splits)

lemma scan_tables_concat: "scan_tables ts = scan_rows (concat ts)"
  by (induction ts) (auto simp: scan_rows_append split: option.splits sum.splits)

lemma scan_rows_Cons:
  assumes "row \<noteq> []"
  shows "scan_rows (row # rest) =
     (if contains median_label (strip (hd row)) then
        (case pattern_search (strip (last row)) of
           Some m \<Rightarrow> Inr (Some m)
         | None \<Rightarrow> scan_rows rest)
      else scan_rows rest)"
proof -
  obtain a list where row: "row = a # list"
    using assms by (cases row) auto
  have L: "last (strip a # map strip list) = strip (last (a # list))"
    by (cases "list = []") (simp_all add: last_map)
  show ?thesis
    by (simp add: row Let_def L del: last.simps)
qed

lemma scan_rows_skipped: "skipped_row r \<Longrightarrow> scan_rows (r # rest) = scan_rows rest"
  by (auto simp: skipped_row_def scan_rows_Cons simp del: scan_rows.simps)

lemma scan_rows_qualifying: "qualifying_row r m \<Longrightarrow> scan_rows (r # rest) = Inr (Some m)"
  by (simp add: qualifying_row_def scan_rows_Cons del: scan_rows.simps)

lemma scan_rows_all_skipped:
  "\<forall>r\<in>set pre. skipped_row r \<Longrightarrow> scan_rows (pre @ rest) = scan_rows rest"
  by (induction pre) (simp_all add: scan_rows_skipped del: scan_rows.simps)

lemma scan_rows_first_qualifying:
  "\<forall>r\<in>set pre. skipped_row r \<Longrightarrow> qualifying_row row m \<Longrightarrow>
   scan_rows (pre @ row # rest) = Inr (Some m)"
  by (simp add: scan_rows_all_skipped scan_rows_qualifying del: scan_rows.simps)

text \<open>
  Claim C7. For every document whose sequence of tables is empty, the extractor returns
  absent (\<open>None\<close>).
\<close>

theorem extract_no_tables:
  "tables doc = [] \<Longrightarrow> extract_ev_ebitda_median doc = Inr None"
  by (simp add: extract_ev_ebitda_median_def)

theorem extract_no_tables_witness:
  "extract_ev_ebitda_median \<lparr>paragraphs = [[0x41]], tables = []\<rparr> = Inr None"
  using extract_no_tables [of "\<lparr>paragraphs = [[0x41]], tables = []\<rparr>"] by simp

text \<open>
  Claim C4. When several tables contain a median-labeled row with a qualifying value,
  the extractor returns the match of the earliest such row in document order and stops:
  the rows before it, in the earlier tables and in its own table, are passed over, and
  whatever follows it (the rest of its table, the later tables) is not looked at. In the
  first example report the earlier median row reads "7" with the unit suffix and the
  later one "9" with the unit suffix, and the result is the former. A row before the
  earliest qualifying row is taken to have at least one cell; on a row without cells the
  scan raises \<open>IndexError\<close>.
\<close>

theorem extract_first_qualifying_row:
  assumes "tables doc = before @ [pre @ [row] @ post] @ after"
    and "\<forall>t\<in>set before. \<forall>r\<in>set t. skipped_row r"
    and "\<forall>r\<in>set pre. skipped_row r"
    and "qualifying_row row m"
  shows "extract_ev_ebitda_median doc = Inr (Some m)"
proof -
  have "\<forall>r\<in>set (concat before @ pre). skipped_row r"
    using assms(2,3) by auto
  then have "scan_rows ((concat before @ pre) @ row # (post @ concat after)) = Inr (Some m)"
    using assms(4) by (rule scan_rows_first_qualifying)
  then show ?thesis
    by (simp add: extract_ev_ebitda_median_def scan_tables_concat assms(1) del: scan_rows.simps)
qed

theorem extract_first_qualifying_row_witness:
  "extract_ev_ebitda_median doc_two_medians = Inr (Some [0x37, 0x500D])"
proof -
  have s1: "skipped_row [[0x41], [0x42]]"
    by (simp add: skipped_row_def string_eval)
  have s2: "skipped_row [[0x58], [0x35, 0x500D]]"
    by (simp add: skipped_row_def string_eval)
  have q: "qualifying_row [median_label, [0x37, 0x500D]] [0x37, 0x500D]"
    by (simp add: qualifying_row_def string_eval pattern_eval)
  show ?thesis
    using extract_first_qualifying_row
      [of doc_two_medians "[[[[0x41], [0x42]]]]" "[[[0x58], [0x35, 0x500D]]]"
          "[median_label, [0x37, 0x500D]]" "[]" "[[[median_label, [0x39, 0x500D]]]]"
          "[0x37, 0x500D]"]
      s1 s2 q
    by (simp add: doc_two_medians_def)
qed

text \<open>
  Claim C9. A median-labeled row whose last cell holds no match of the numeric pattern
  does not end the scan: when such a row comes before, in the document order of the
  rows, a median-labeled row whose last cell does match, and the other rows before the
  latter are passed over, the extractor returns the later row's match and not absent.
\<close>

theorem unmatched_median_row_does_not_stop_scan:
  assumes "concat (tables doc) = pre @ [bad] @ mid @ [good] @ post"
    and "\<forall>r\<in>set pre. skipped_row r"
    and "\<forall>r\<in>set mid. skipped_row r"
    and "bad \<noteq> []"
    and "contains median_label (strip (hd bad))"
    and "pattern_search (strip (last bad)) = None"
    and "qualifying_row good m"
  shows "extract_ev_ebitda_median doc = Inr (Some m)"
proof -
  have "skipped_row bad"
    using assms(4,6) by (simp add: skipped_row_def)
  then have "\<forall>r\<in>set (pre @ [bad] @ mid). skipped_row r"
    using assms(2,3) by auto
  then have "scan_rows ((pre @ [bad] @ mid) @ good # post) = Inr (Some m)"
    using assms(7) by (rule scan_rows_first_qualifying)
  then show ?thesis
    by (simp add: extract_ev_ebitda_median_def scan_tables_concat assms(1) del: scan_rows.simps)
qed

theorem unmatched_median_row_does_not_stop_scan_witness:
  "extract_ev_ebitda_median doc_unmatched_median = Inr (Some [0x39, 0x2E, 0x35, 0x500D])"
proof -
  have s1: "skipped_row [[0x41], [0x42]]"
    by (simp add: skipped_row_def string_eval)
  have s2: "skipped_row [[0x58], [0x35, 0x500D]]"
    by (simp add: skipped_row_def string_eval)
  have b1: "contains median_label (strip (hd [median_label, [0x2D]]))"
    by (simp add: string_eval)
  have b2: "pattern_search (strip (last [median_label, [0x2D]])) = None"
    by (simp add: string_eval pattern_eval)
  have q: "qualifying_row [median_label @ [0x20], [0x20, 0x39, 0x2E, 0x35, 0x500D]]
             [0x39, 0x2E, 0x35, 0x500D]"
    by (simp add: qualifying_row_def string_eval pattern_eval)
  show ?thesis
    using unmatched_median_row_does_not_stop_scan
      [of doc_unmatched_median "[[[0x41], [0x42]]]" "[median_label, [0x2D]]"
          "[[[0x58], [0x35, 0x500D]]]"
          "[median_label @ [0x20], [0x20, 0x39, 0x2E, 0x35, 0x500D]]" "[]"
          "[0x39, 0x2E, 0x35, 0x500D]"]
      s1 s2 b1 b2 q
    by (simp add: doc_unmatched_median_def)
qed

subsection \<open>The pattern on a run of digits\<close>

text \<open>
  After a digit the rest of the pattern (the optional fraction, then the unit suffix)
  fails, so a repetition cannot stop inside a run of digits; at the unit suffix it
  succeeds.
\<close>

lemma tail_at_digit: "isdecimal c \<Longrightarrow> opt_then fraction_then (lit_then unit_suffix accept) (c # s) = None"
  using isdecimal_unit_suffix isdecimal_full_stop
  by (auto simp: opt_then_def fraction_then_def lit_then_def)

lemma tail_at_suffix:
  "opt_then fraction_then (lit_then unit_suffix accept) (unit_suffix # s) = Some [unit_suffix]"
  by (simp add: opt_then_def fraction_then_def lit_then_def accept_def unit_suffix_def full_stop_def)

lemma repeat_then_too_many_digits:
  "\<forall>c\<in>set ds. isdecimal c \<Longrightarrow> hi < length ds \<Longrightarrow>
   repeat_then isdecimal lo hi (opt_then fraction_then (lit_then unit_suffix accept)) (ds @ rest) = None"
proof (induction ds arbitrary: lo hi)
  case Nil
  then show ?case by simp
next
  case (Cons c ds)
  show ?case
  proof (cases "0 < hi")
    case True
    then have "hi - 1 < length ds" using Cons.prems(2) by simp
    then have "repeat_then isdecimal (lo - 1) (hi - 1)
        (opt_then fraction_then (lit_then unit_suffix accept)) (ds @ rest) = None"
      using Cons.IH Cons.prems(1) by simp
    then show ?thesis
      using Cons.prems(1) by (simp add: tail_at_digit)
  next
    case False
    then show ?thesis
      using Cons.prems(1) by (simp add: tail_at_digit)
  qed
qed

lemma repeat_then_digits_suffix:
  "\<forall>c\<in>set ds. isdecimal c \<Longrightarrow> length ds \<le> hi \<Longrightarrow> lo \<le> length ds \<Longrightarrow>
   repeat_then isdecimal lo hi (opt_then fraction_then (lit_then unit_suffix accept))
     (ds @ unit_suffix # post) = Some (ds @ [unit_suffix])"
proof (induction ds arbitrary: lo hi)
  case Nil
  then show ?case
    using isdecimal_unit_suffix by (simp add: tail_at_suffix)
next
  case (Cons c ds)
  have "repeat_then isdecimal (lo - 1) (hi - 1)
      (opt_then fraction_then (lit_then unit_suffix accept)) (ds @ unit_suffix # post)
      = Some (ds @ [unit_suffix])"
    using Cons.prems by (intro Cons.IH) auto
  then show ?case
    using Cons.prems by simp
qed

lemma pattern_match_long_run:
  "\<forall>c\<in>set ds. isdecimal c \<Longrightarrow> 4 \<le> length ds \<Longrightarrow> pattern_match (ds @ rest) = None"
  unfolding pattern_match_def by (rule repeat_then_too_many_digits) auto

lemma pattern_match_short_run:
  "\<forall>c\<in>set ds. isdecimal c \<Longrightarrow> 1 \<le> length ds \<Longrightarrow> length ds \<le> 3 \<Longrightarrow>
   pattern_match (ds @ unit_suffix # post) = Some (ds @ [unit_suffix])"
  unfolding pattern_match_def by (rule repeat_then_digits_suffix) auto

lemma pattern_match_not_digit: "\<not> isdecimal c \<Longrightarrow> pattern_match (c # s) = None"
  by (simp add: pattern_match_def)

lemma pattern_search_skip_unmatched:
  "\<forall>k<length pre. pattern_match (drop k pre @ s) = None \<Longrightarrow>
   pattern_search (pre @ s) = pattern_search s"
proof (induction pre)
  case Nil
  then show ?case by simp
next
  case (Cons c pre)
  have "pattern_match (drop 0 (c # pre) @ s) = None"
    using Cons.prems by blast
  then have here: "pattern_match (c # pre @ s) = None"
    by simp
  have "\<forall>k<length pre. pattern_match (drop k pre @ s) = None"
  proof (intro allI impI)
    fix k
    assume "k < length pre"
    then have "pattern_match (drop (Suc k) (c # pre) @ s) = None"
      using Cons.prems by (metis Suc_less_eq length_Cons)
    then show "pattern_match (drop k pre @ s) = None"
      by simp
  qed
  then have "pattern_search (pre @ s) = pattern_search s"
    by (rule Cons.IH)
  then show ?case
    using here by simp
qed

lemma no_match_starts_in_non_digits:
  "\<forall>c\<in>set pre. \<not> isdecimal c \<Longrightarrow> k < length pre \<Longrightarrow>
   pattern_match (drop k pre @ s) = None"
proof -
  assume a: "\<forall>c\<in>set pre. \<not> isdecimal c" and k: "k < length pre"
  then have "drop k pre = pre ! k # drop (Suc k) pre"
    by (simp add: Cons_nth_drop_Suc)
  moreover have "\<not> isdecimal (pre ! k)"
    using a k by simp
  ultimately show ?thesis
    by (simp add: pattern_match_not_digit)
qed

lemma pattern_search_digit_run:
  "\<forall>c\<in>set ds. isdecimal c \<Longrightarrow> 3 \<le> length ds \<Longrightarrow>
   pattern_search (ds @ unit_suffix # post) = Some (drop (length ds - 3) ds @ [unit_suffix])"
proof (induction ds)
  case Nil
  then show ?case by simp
next
  case (Cons c ds)
  show ?case
  proof (cases "3 \<le> length ds")
    case True
    then have "4 \<le> length (c # ds)" by simp
    then have "pattern_match ((c # ds) @ unit_suffix # post) = None"
      using Cons.prems(1) by (intro pattern_match_long_run)
    moreover have "pattern_search (ds @ unit_suffix # post)
        = Some (drop (length ds - 3) ds @ [unit_suffix])"
      using Cons.IH Cons.prems(1) True by simp
    moreover have "drop (length (c # ds) - 3) (c # ds) = drop (length ds - 3) ds"
    proof -
      have "length (c # ds) - 3 = Suc (length ds - 3)"
        using True by simp
      then show ?thesis
        by (simp only: drop_Suc_Cons)
    qed
    ultimately show ?thesis by simp
  next
    case False
    then have len: "length (c # ds) = 3" using Cons.prems(2) by simp
    then have "pattern_match ((c # ds) @ unit_suffix # post) = Some ((c # ds) @ [unit_suffix])"
      using Cons.prems(1) by (intro pattern_match_short_run) simp_all
    then show ?thesis using len by simp
  qed
qed

text \<open>
  Claim C10, as stated: for a median-labeled row whose last cell has a run of four or
  more digits immediately before the unit suffix, the extractor returns only the last
  three digits of the run and the suffix, not the whole number. This fails when the run
  is the fraction of a decimal number: in "12.3456" and the unit suffix the run "3456"
  stands immediately before the suffix, the pattern matches from the "1", and the
  extractor returns the whole number.
\<close>

theorem fraction_run_counterexample:
  "extract_ev_ebitda_median doc_fraction_run
     = Inr (Some [0x31, 0x32, 0x2E, 0x33, 0x34, 0x35, 0x36, 0x500D])
   \<and> extract_ev_ebitda_median doc_fraction_run \<noteq> Inr (Some [0x34, 0x35, 0x36, 0x500D])"
  by (simp add: extract_ev_ebitda_median_def doc_fraction_run_def string_eval pattern_eval)

text \<open>
  Claim C10, amended: the numeric pattern is not anchored to the start of a run of
  digits. For a median-labeled row that the scan reaches (the rows before it are passed
  over) and whose last cell has a run of four or more digits immediately before the
  unit suffix, with no match of the pattern starting before the run in the cell, the
  extractor returns the last three digits of the run and the suffix ("234" and the
  suffix for "1234" and the suffix), not the whole run and not absent. No match starts
  before the run when no digit comes before it.
\<close>

theorem long_digit_run_yields_last_three_digits:
  assumes "concat (tables doc) = before @ row # rest"
    and "\<forall>r\<in>set before. skipped_row r"
    and "row \<noteq> []"
    and "contains median_label (strip (hd row))"
    and "strip (last row) = pre @ ds @ unit_suffix # post"
    and "\<forall>k<length pre. pattern_match (drop k pre @ ds @ unit_suffix # post) = None"
    and "\<forall>c\<in>set ds. isdecimal c"
    and "4 \<le> length ds"
  shows "extract_ev_ebitda_median doc = Inr (Some (drop (length ds - 3) ds @ [unit_suffix]))"
proof -
  have "pattern_search (strip (last row)) = pattern_search (ds @ unit_suffix # post)"
    using assms(6) by (simp add: assms(5) pattern_search_skip_unmatched)
  also have "\<dots> = Some (drop (length ds - 3) ds @ [unit_suffix])"
    using assms(7,8) by (intro pattern_search_digit_run) simp_all
  finally have "qualifying_row row (drop (length ds - 3) ds @ [unit_suffix])"
    using assms(3,4) by (simp add: qualifying_row_def)
  with assms(2) have "scan_rows (before @ row # rest)
      = Inr (Some (drop (length ds - 3) ds @ [unit_suffix]))"
    by (rule scan_rows_first_qualifying)
  then show ?thesis
    by (simp add: extract_ev_ebitda_median_def scan_tables_concat assms(1) del: scan_rows.simps)
qed

text \<open>
  The theorem at the claim's own cell, "1234" and the suffix after a row that is passed
  over, and at the cell "EV 1234" and the suffix, where three characters that are not
  digits come before the run.
\<close>

theorem long_digit_run_yields_last_three_digits_witness:
  "extract_ev_ebitda_median doc_long_number = Inr (Some [0x32, 0x33, 0x34, 0x500D])
   \<and> extract_ev_ebitda_median doc_prefixed_number = Inr (Some [0x32, 0x33, 0x34, 0x500D])"
proof -
  have s1: "skipped_row [[0x41], [0x42]]"
    by (simp add: skipped_row_def string_eval)
  have l1: "contains median_label (strip (hd [median_label, [0x31, 0x32, 0x33, 0x34, 0x500D]]))"
    by (simp add: string_eval)
  have c1: "strip (last [median_label, [0x31, 0x32, 0x33, 0x34, 0x500D]])
             = [] @ [0x31, 0x32, 0x33, 0x34] @ unit_suffix # []"
    by (simp add: string_eval)
  have d: "\<forall>c\<in>set [0x31, 0x32, 0x33, 0x34]. isdecimal c"
    by (simp add: string_eval)
  have first: "extract_ev_ebitda_median doc_long_number = Inr (Some [0x32, 0x33, 0x34, 0x500D])"
    using long_digit_run_yields_last_three_digits
      [of doc_long_number "[[[0x41], [0x42]]]" "[median_label, [0x31, 0x32, 0x33, 0x34, 0x500D]]"
          "[]" "[]" "[0x31, 0x32, 0x33, 0x34]" "[]"]
      s1 l1 c1 d
    by (simp add: doc_long_number_def unit_suffix_def)
  have l2: "contains median_label
      (strip (hd [median_label, [0x45, 0x56, 0x20, 0x31, 0x32, 0x33, 0x34, 0x500D]]))"
    by (simp add: string_eval)
  have c2: "strip (last [median_label, [0x45, 0x56, 0x20, 0x31, 0x32, 0x33, 0x34, 0x500D]])
             = [0x45, 0x56, 0x20] @ [0x31, 0x32, 0x33, 0x34] @ unit_suffix # []"
    by (simp add: string_eval)
  have "\<forall>c\<in>set [0x45, 0x56, 0x20]. \<not> isdecimal c"
    by (simp add: string_eval)
  then have n2: "\<forall>k<length [0x45, 0x56, 0x20 :: nat].
      pattern_match (drop k [0x45, 0x56, 0x20] @ [0x31, 0x32, 0x33, 0x34] @ unit_suffix # []) = None"
    using no_match_starts_in_non_digits [of "[0x45, 0x56, 0x20]"] by blast
  have second: "extract_ev_ebitda_median doc_prefixed_number
      = Inr (Some [0x32, 0x33, 0x34, 0x500D])"
    using long_digit_run_yields_last_three_digits
      [of doc_prefixed_number "[]" "[median_label, [0x45, 0x56, 0x20, 0x31, 0x32, 0x33, 0x34, 0x500D]]"
          "[]" "[0x45, 0x56, 0x20]" "[0x31, 0x32, 0x33, 0x34]" "[]", OF _ _ _ l2 c2 n2 d]
    by (simp add: doc_prefixed_number_def unit_suffix_def)
  show ?thesis
    using first second by simp
qed

section \<open>Properties of the relevance ranker\<close>

text \<open>
  Everything below holds for any sort of which only \<open>sorts_indices\<close> is known; the
  order among equal scores plays no part.
\<close>

lemma sorts_indices_insertion_argsort: "sorts_indices a (insertion_argsort a)"
  by (simp add: sorts_indices_def insertion_argsort_def)

lemma sorts_indices_set: "sorts_indices a idxs \<Longrightarrow> set idxs = {0..<length a}"
  using mset_eq_setD [of idxs "[0..<length a]"] by (simp add: sorts_indices_def)

lemma sorts_indices_length: "sorts_indices a idxs \<Longrightarrow> length idxs = length a"
  using mset_eq_length [of idxs "[0..<length a]"] by (simp add: sorts_indices_def)

lemma length_top_indices:
  "sorts_indices sims (srt sims) \<Longrightarrow> length (top_indices srt sims) = min 3 (length sims)"
  by (auto simp: top_indices_def last3_def sorts_indices_length)

lemma set_top_indices:
  assumes "sorts_indices sims (srt sims)"
  shows "set (top_indices srt sims) \<subseteq> {0..<length sims}"
  using set_drop_subset [of "length (srt sims) - 3" "srt sims"]
    sorts_indices_set [of sims "srt sims"] assms
  by (simp add: top_indices_def last3_def)

lemma top_indices_descending:
  assumes "sorts_indices sims (srt sims)"
  shows "sorted_wrt (\<lambda>i j. sims ! j \<le> sims ! i) (top_indices srt sims)"
proof -
  have "sorted_wrt (\<lambda>i j. sims ! i \<le> sims ! j) (srt sims)"
    using assms by (simp add: sorts_indices_def sorted_map)
  then have "sorted_wrt (\<lambda>i j. sims ! i \<le> sims ! j) (last3 (srt sims))"
    unfolding last3_def by (rule sorted_wrt_drop)
  then show ?thesis
    by (simp add: top_indices_def sorted_wrt_rev)
qed


lemma gather_in_range:
  "\<forall>i\<in>set idxs. i < length xs \<Longrightarrow> gather xs idxs = Inr (map (\<lambda>i. xs ! i) idxs)"
  by (induction idxs) (simp_all add: getitem_def)

lemma search_relevant_text_result:
  assumes "score query texts = Inr sims" and "length sims = length texts"
    and "sorts_indices sims (srt sims)"
  shows "search_relevant_text srt score query texts
           = Inr (map (\<lambda>i. texts ! i) (top_indices srt sims))"
proof -
  have "\<forall>i\<in>set (top_indices srt sims). i < length texts"
    using set_top_indices [of sims srt] assms(2,3) by auto
  then show ?thesis
    by (simp add: search_relevant_text_def assms(1) gather_in_range)
qed


lemma top_indices_zeros2: "top_indices insertion_argsort [0, 0] = [1, 0]"
  by (simp add: top_indices_def last3_def insertion_argsort_def upt_conv_Cons)

lemma sorts_indices_example4: "sorts_indices [1, 1, 0, 0] [3, 2, 1, 0]"
  by (simp add: sorts_indices_def upt_conv_Cons numeral_2_eq_2 numeral_3_eq_3)

text \<open>
  Claim C5. For every query and every non-empty list of paragraphs, the ranker returns at
  most 3 items, and every item it returns is an element of the input list. The scores
  are those the library computed for the call, one for each paragraph, and the sort
  sorts their indices; with them the ranker does return.
\<close>

theorem rank_at_most_three_from_input:
  assumes "score query texts = Inr sims" and "length sims = length texts"
    and "sorts_indices sims (srt sims)"
  shows "\<exists>r. search_relevant_text srt score query texts = Inr r
           \<and> length r \<le> 3 \<and> set r \<subseteq> set texts"
proof -
  let ?r = "map (\<lambda>i. texts ! i) (top_indices srt sims)"
  have "search_relevant_text srt score query texts = Inr ?r"
    using search_relevant_text_result [of score query texts sims srt] assms by simp
  moreover have "length ?r \<le> 3"
    using length_top_indices [of sims srt] assms(3) by simp
  moreover have "set ?r \<subseteq> set texts"
    using set_top_indices [of sims srt] assms(2,3) by auto
  ultimately show ?thesis by blast
qed

theorem rank_at_most_three_from_input_witness:
  "\<exists>r. search_relevant_text insertion_argsort (\<lambda>q ts. Inr [5, 1, 7, 2]) [0x71]
          [[0x61], [0x62], [0x63], [0x64]] = Inr r
       \<and> length r \<le> 3 \<and> set r \<subseteq> set [[0x61], [0x62], [0x63], [0x64]]"
  using rank_at_most_three_from_input
    [of "\<lambda>q ts. Inr [5, 1, 7, 2]" "[0x71]" "[[0x61], [0x62], [0x63], [0x64]]" "[5, 1, 7, 2]"
        insertion_argsort]
    sorts_indices_insertion_argsort [of "[5, 1, 7, 2]"]
  by simp



text \<open>
  Claim C3, as stated: the ranking is in descending order of cosine similarity, and
  among paragraphs of equal score the one that is earlier in the input comes first.
  This fails for two paragraphs that share no term with the query, when the sort leaves
  their two equal scores as they are: the ranker reverses the sorted indices and
  returns the second paragraph before the first.
\<close>

theorem rank_ties_in_input_order_counterexample:
  "search_relevant_text insertion_argsort zero_scorer [0x71, 0x71]
       [[0x61, 0x61], [0x62, 0x62]]
     = Inr [[0x62, 0x62], [0x61, 0x61]]
   \<and> \<not> spec_ranking_order [0, 0] (top_indices insertion_argsort [0, 0])"
  by (simp add: search_relevant_text_def zero_scorer_def top_indices_zeros2 getitem_def
      spec_ranking_order_def)

text \<open>
  Claim C3, amended: for every query and every non-empty list of paragraphs, the ranking
  is in descending order of cosine similarity. The order among paragraphs of equal
  score is not promised: it is the reverse of the order the sort leaves them in, which
  the code does not fix. The instance below is a sort that puts equal scores in
  descending index order; there the ranking of the scores 1, 1, 0, 0 is the first three
  paragraphs in input order.
\<close>

theorem rank_descending:
  assumes "score query texts = Inr sims" and "length sims = length texts"
    and "sorts_indices sims (srt sims)"
  shows "search_relevant_text srt score query texts
           = Inr (map (\<lambda>i. texts ! i) (top_indices srt sims))
       \<and> sorted_wrt (\<lambda>i j. sims ! j \<le> sims ! i) (top_indices srt sims)"
  using search_relevant_text_result [of score query texts sims srt] assms
    top_indices_descending [of sims srt]
  by simp

theorem rank_descending_witness:
  "search_relevant_text (\<lambda>a. [3, 2, 1, 0]) (\<lambda>q ts. Inr [1, 1, 0, 0]) [0x71]
       [[0x61], [0x62], [0x63], [0x64]]
     = Inr [[0x61], [0x62], [0x63]]
   \<and> sorted_wrt (\<lambda>i j. [1, 1, 0, 0 :: real] ! j \<le> [1, 1, 0, 0] ! i) [0, 1, 2]"
  using rank_descending
    [of "\<lambda>q ts. Inr [1, 1, 0, 0]" "[0x71]" "[[0x61], [0x62], [0x63], [0x64]]" "[1, 1, 0, 0]"
        "\<lambda>a. [3, 2, 1, 0]"]
    sorts_indices_example4
  by (simp add: top_indices_def last3_def)

section \<open>Properties of the request handler\<close>

lemma decimal_404: "decimal 404 = [0x34, 0x30, 0x34]"
  by simp

text \<open>
  The loop over the five questions runs to its end when the library returns scores for
  every question, one for each paragraph, the sort sorts their indices, and every chat
  completion succeeds.
\<close>

lemma collect_summaries_succeeds:
  assumes "\<forall>q. \<exists>sims. similarity e q ps = Inr sims \<and> length sims = length ps
             \<and> sorts_indices sims (argsort e sims)"
    and "\<forall>p. \<exists>c. chat_completion e p = Inr c"
  shows "\<exists>tr' s. collect_summaries e ps qs summaries tr = (tr', Inr s)"
proof (induction qs arbitrary: summaries tr)
  case Nil
  then show ?case by simp
next
  case (Cons kq qs)
  obtain key query where kq: "kq = (key, query)" by (cases kq)
  obtain sims where sims: "similarity e query ps = Inr sims" "length sims = length ps"
      "sorts_indices sims (argsort e sims)"
    using assms(1) by blast
  have r: "search_relevant_text (argsort e) (similarity e) query ps
      = Inr (map (\<lambda>i. ps ! i) (top_indices (argsort e) sims))"
    using search_relevant_text_result [of "similarity e" query ps sims "argsort e"] sims
    by simp
  obtain c where c: "chat_completion e
      (join [0xA] (map (\<lambda>i. ps ! i) (top_indices (argsort e) sims))
         @ prompt_middle @ query @ prompt_tail)
      = Inr c"
    using assms(2) by blast
  show ?case
    using Cons.IH by (simp add: kq r c Let_def)
qed

text \<open>
  The pipeline does return: with the report that has a median row, the answer is the
  record of the five stripped summaries and the metric.
\<close>

lemma pipeline_success_example:
  "snd (summarize_preset_file (example_env\<lparr>load_document := (\<lambda>p. Inr doc_with_median)\<rparr>) (Some retail))
     = Returned \<lparr>r_current_situation = [0x6F, 0x6B],
                 r_future_outlook = [0x6F, 0x6B],
                 r_investment_advantages = [0x6F, 0x6B],
                 r_investment_disadvantages = [0x6F, 0x6B],
                 r_value_up_hypothesis = [0x6F, 0x6B],
                 r_ev_ebitda_median = [0x31, 0x32, 0x2E, 0x33, 0x500D]\<rparr>"
  by (simp add: summarize_preset_file_def try_body_def Let_def example_env_def doc_with_median_def
      queries_def search_relevant_text_def zero_scorer_def top_indices_zeros2 getitem_def
      extract_ev_ebitda_median_def string_eval pattern_eval)

text \<open>
  Claim C8. For every request in which the parameter \<open>industry\<close> is absent, the endpoint
  answers with a client-error status (400), and makes no call to the file system, to the
  document loader or to the summarization client: the trace of its calls is empty.
\<close>

theorem missing_parameter_answers_400:
  "summarize_preset_file e None = ([], Failed 400 detail_missing_parameter)"
  by (simp add: summarize_preset_file_def)

theorem missing_parameter_answers_400_witness:
  "summarize_preset_file example_env None = ([], Failed 400 detail_missing_parameter)"
  using missing_parameter_answers_400 [of example_env] by simp

text \<open>
  The clause for \<open>FileNotFoundError\<close> answers 404 with the detail of the missing file:
  this is the answer the handler intends for a report that is not there.
\<close>

lemma loader_file_not_found_answers_404:
  assumes "path_exists e (path_prefix @ industry @ path_suffix)"
    and "load_document e (path_prefix @ industry @ path_suffix) = Inl (FileNotFoundError m)"
  shows "snd (summarize_preset_file e (Some industry)) = Failed 404 detail_file_not_found"
  using assms by (simp add: summarize_preset_file_def try_body_def handle_exception_def Let_def)

text \<open>
  Claim C2 says that for every industry identifier whose file path does not exist the
  request fails with a not-found status and a detail that refers to the missing file.
  The code raises that \<open>HTTPException\<close> (404) inside the \<open>try\<close> block, where the clause
  for \<open>Exception\<close> catches it: the request fails with status 500, and the detail is
  \<open>str\<close> of the exception that was caught.
\<close>

theorem missing_file_answers_500:
  assumes "\<not> path_exists e (path_prefix @ industry @ path_suffix)"
  shows "summarize_preset_file e (Some industry) =
     ([PathExists (path_prefix @ industry @ path_suffix)],
      Failed 500 (exc_str e (HTTPException 404 detail_file_not_found)))"
  using assms by (simp add: summarize_preset_file_def try_body_def handle_exception_def Let_def)

theorem missing_file_answers_500_witness:
  "summarize_preset_file example_env (Some bank) =
     ([PathExists (path_prefix @ bank @ path_suffix)],
      Failed 500 ([0x34, 0x30, 0x34, 0x3A, 0x20] @ detail_file_not_found))"
proof -
  have "\<not> path_exists example_env (path_prefix @ bank @ path_suffix)"
    by (simp add: example_env_def bank_def retail_def)
  then show ?thesis
    using missing_file_answers_500 [of example_env bank]
    by (simp add: example_env_def example_exc_str_def decimal_404)
qed

text \<open>
  Claim C1 says that for every request in which the document loads and all five
  summarization calls succeed but the extractor returns absent, the pipeline fails with
  a not-found status and a detail that refers to the missing metric. The code raises
  that \<open>HTTPException\<close> (404) inside the \<open>try\<close> block, where the clause for \<open>Exception\<close>
  catches it: the request fails with status 500, and the detail is \<open>str\<close> of the
  exception that was caught.
\<close>

theorem missing_metric_answers_500:
  assumes "path_exists e (path_prefix @ industry @ path_suffix)"
    and "load_document e (path_prefix @ industry @ path_suffix) = Inr doc"
    and "collect_summaries e (filter (\<lambda>p. strip p \<noteq> []) (paragraphs doc)) queries (\<lambda>key. [])
           [PathExists (path_prefix @ industry @ path_suffix),
            LoadDocument (path_prefix @ industry @ path_suffix)] = (tr, Inr summaries)"
    and "extract_ev_ebitda_median doc = Inr None"
  shows "summarize_preset_file e (Some industry) =
     (tr, Failed 500 (exc_str e (HTTPException 404 detail_metric_not_found)))"
  using assms by (simp add: summarize_preset_file_def try_body_def handle_exception_def Let_def)

theorem missing_metric_answers_500_witness:
  "snd (summarize_preset_file example_env (Some retail)) =
     Failed 500 ([0x34, 0x30, 0x34, 0x3A, 0x20] @ detail_metric_not_found)"
proof -
  let ?path = "path_prefix @ retail @ path_suffix"
  let ?ps = "filter (\<lambda>p. strip p \<noteq> []) (paragraphs example_doc)"
  have ex: "path_exists example_env ?path"
    by (simp add: example_env_def)
  have ld: "load_document example_env ?path = Inr example_doc"
    by (simp add: example_env_def)
  have "\<forall>q. \<exists>sims. similarity example_env q ?ps = Inr sims \<and> length sims = length ?ps
          \<and> sorts_indices sims (argsort example_env sims)"
    by (simp add: example_env_def zero_scorer_def sorts_indices_insertion_argsort)
  moreover have "\<forall>p. \<exists>c. chat_completion example_env p = Inr c"
    by (simp add: example_env_def)
  ultimately obtain tr s where
    cs: "collect_summaries example_env ?ps queries (\<lambda>key. [])
           [PathExists ?path, LoadDocument ?path] = (tr, Inr s)"
    using collect_summaries_succeeds
      [of example_env ?ps queries "\<lambda>key. []" "[PathExists ?path, LoadDocument ?path]"]
    by blast
  have none: "extract_ev_ebitda_median example_doc = Inr None"
    by (simp add: extract_ev_ebitda_median_def example_doc_def string_eval)
  show ?thesis
    using missing_metric_answers_500 [of example_env retail example_doc tr s, OF ex ld cs none]
    by (simp add: example_env_def example_exc_str_def decimal_404)
qed

end
